theory Spec2Isabelle
  imports Complex_Main
begin

section \<open>Decimal arithmetic of the calculator\<close>

text \<open>
  The calculator (grundsteuer\_rechner.py) computes with Python's \<^verbatim>\<open>decimal.Decimal\<close>
  under the context it sets at import time: \<^verbatim>\<open>getcontext().prec = 28\<close>, and otherwise the
  default context (rounding ROUND\_HALF\_EVEN, Emax = 999999, Emin = -999999, clamp = 0,
  traps for InvalidOperation, DivisionByZero and Overflow).

  A finite Decimal is the triple of its sign, its coefficient and its exponent; the
  coefficient, a digit string without leading zeros in the library, is a natural number
  here, and \<open>ndigits\<close> is the length of that string. NaN and the infinities are not
  modelled: the inputs of the calculator are finite decimals, and no operation below
  produces a special value while the traps are set (it raises instead).
\<close>

datatype error = InvalidOperation | DivisionByZero | Overflow | ValueError

record decimal =
  dsign :: bool
  dint :: nat
  dexp :: int

definition Decimal :: "bool \<Rightarrow> nat \<Rightarrow> int \<Rightarrow> decimal" where
  "Decimal s c e = \<lparr>dsign = s, dint = c, dexp = e\<rparr>"

datatype rounding = ROUND_HALF_UP | ROUND_HALF_EVEN

definition prec :: int where "prec = 28"
definition Emax :: int where "Emax = 999999"
definition Emin :: int where "Emin = - 999999"
definition Etiny :: int where "Etiny = Emin - prec + 1"
definition Etop :: int where "Etop = Emax - prec + 1"

definition bindE :: "error + 'a \<Rightarrow> ('a \<Rightarrow> error + 'b) \<Rightarrow> error + 'b" where
  "bindE m f = (case m of Inl e \<Rightarrow> Inl e | Inr v \<Rightarrow> f v)"

text \<open>\<^verbatim>\<open>len(self._int)\<close>: the number of decimal digits, 1 for zero.\<close>

fun ndigits :: "nat \<Rightarrow> nat" where
  "ndigits n = (if n < 10 then 1 else Suc (ndigits (n div 10)))"

declare ndigits.simps [simp del]

text \<open>\<^verbatim>\<open>adjusted()\<close>: the exponent of the most significant digit.\<close>

definition adjusted :: "decimal \<Rightarrow> int" where
  "adjusted x = dexp x + int (ndigits (dint x)) - 1"

text \<open>
  The rounding functions of the library look at the digits dropped: here \<open>k\<close> is the
  number of digits cut from the coefficient \<open>c\<close>, and the result says whether the kept
  part is incremented (the library's \<^verbatim>\<open>changed == 1\<close>).
\<close>

definition round_up :: "rounding \<Rightarrow> nat \<Rightarrow> nat \<Rightarrow> bool" where
  "round_up r c k =
     (let q = c div 10 ^ k; m = c mod 10 ^ k in
      case r of
        ROUND_HALF_UP \<Rightarrow> 10 ^ k \<le> 2 * m
      | ROUND_HALF_EVEN \<Rightarrow> 10 ^ k < 2 * m \<or> (2 * m = 10 ^ k \<and> odd q))"

text \<open>\<^verbatim>\<open>_rescale(exp, rounding)\<close>: pad with zeros, or cut digits and round.\<close>

definition rescale :: "decimal \<Rightarrow> int \<Rightarrow> rounding \<Rightarrow> decimal" where
  "rescale x e r =
     (if dint x = 0 then Decimal (dsign x) 0 e
      else if e \<le> dexp x then Decimal (dsign x) (dint x * 10 ^ nat (dexp x - e)) e
      else
        let k = nat (e - dexp x); q = dint x div 10 ^ k in
        Decimal (dsign x) (if round_up r (dint x) k then q + 1 else q) e)"

text \<open>
  \<^verbatim>\<open>_fix(context)\<close>: bring a result into the context. A zero has its exponent clamped;
  a coefficient of more than \<open>prec\<close> digits is rounded half-even; a result above Emax
  raises Overflow (trapped). Subnormal results are rounded at Etiny (Underflow is not
  trapped).
\<close>

definition dec_fix :: "decimal \<Rightarrow> error + decimal" where
  "dec_fix x =
     (if dint x = 0 then Inr (Decimal (dsign x) 0 (min (max (dexp x) Etiny) Emax))
      else
        let exp_min0 = int (ndigits (dint x)) + dexp x - prec in
        if Etop < exp_min0 then Inl Overflow
        else
          let exp_min = (if exp_min0 < Etiny then Etiny else exp_min0) in
          if dexp x < exp_min then
            let k = nat (exp_min - dexp x);
                q = dint x div 10 ^ k;
                changed = round_up ROUND_HALF_EVEN (dint x) k;
                carry = (changed \<and> prec < int (ndigits (q + 1)));
                coeff = (if changed then (if carry then (q + 1) div 10 else q + 1) else q);
                exp_min' = (if carry then exp_min + 1 else exp_min)
            in if Etop < exp_min' then Inl Overflow
               else Inr (Decimal (dsign x) coeff exp_min')
          else Inr x)"

text \<open>\<^verbatim>\<open>quantize(exp, rounding)\<close>, with \<open>e\<close> the exponent of its argument \<^verbatim>\<open>exp\<close>.\<close>

definition quantize :: "decimal \<Rightarrow> int \<Rightarrow> rounding \<Rightarrow> error + decimal" where
  "quantize x e r =
     (if \<not> (Etiny \<le> e \<and> e \<le> Emax) then Inl InvalidOperation
      else if dint x = 0 then dec_fix (Decimal (dsign x) 0 e)
      else if Emax < adjusted x then Inl InvalidOperation
      else if prec < adjusted x - e + 1 then Inl InvalidOperation
      else
        let ans = rescale x e r in
        if Emax < adjusted ans then Inl InvalidOperation
        else if prec < int (ndigits (dint ans)) then Inl InvalidOperation
        else dec_fix ans)"

text \<open>\<^verbatim>\<open>__mul__\<close>: exact product, then \<^verbatim>\<open>_fix\<close>.\<close>

definition dec_mul :: "decimal \<Rightarrow> decimal \<Rightarrow> error + decimal" where
  "dec_mul x y =
     dec_fix (Decimal (dsign x \<noteq> dsign y) (dint x * dint y) (dexp x + dexp y))"

text \<open>
  \<^verbatim>\<open>__truediv__\<close>. The quotient is computed to \<open>prec + 1\<close> digits or more; when
  the division leaves a remainder, a quotient ending in 0 or 5 is bumped by one so that
  the rounding of \<^verbatim>\<open>_fix\<close> sees that it is inexact; when it leaves none, trailing zeros
  are removed up to the ideal exponent.
\<close>

function strip_zeros :: "nat \<Rightarrow> int \<Rightarrow> int \<Rightarrow> nat \<times> int" where
  "strip_zeros coeff e ideal_exp =
     (if e < ideal_exp \<and> coeff mod 10 = 0
      then strip_zeros (coeff div 10) (e + 1) ideal_exp
      else (coeff, e))"
  by pat_completeness auto
termination
  by (relation "measure (\<lambda>(coeff, e, ideal_exp). nat (ideal_exp - e))") auto

declare strip_zeros.simps [simp del]

definition dec_div :: "decimal \<Rightarrow> decimal \<Rightarrow> error + decimal" where
  "dec_div x y =
     (let s = (dsign x \<noteq> dsign y) in
      if dint y = 0 then
        (if dint x = 0 then Inl InvalidOperation else Inl DivisionByZero)
      else if dint x = 0 then dec_fix (Decimal s 0 (dexp x - dexp y))
      else
        let shift = int (ndigits (dint y)) - int (ndigits (dint x)) + prec + 1;
            e = dexp x - dexp y - shift;
            (coeff, remainder) =
              (if 0 \<le> shift
               then ((dint x * 10 ^ nat shift) div dint y, (dint x * 10 ^ nat shift) mod dint y)
               else (dint x div (dint y * 10 ^ nat (- shift)),
                     dint x mod (dint y * 10 ^ nat (- shift))));
            (coeff', e') =
              (if remainder \<noteq> 0
               then (if coeff mod 5 = 0 then coeff + 1 else coeff, e)
               else strip_zeros coeff e (dexp x - dexp y))
        in dec_fix (Decimal s coeff' e'))"

text \<open>
  \<^verbatim>\<open>__add__\<close> with \<^verbatim>\<open>_normalize\<close>, and \<^verbatim>\<open>__sub__\<close>, which adds the negated operand.
  The context rounding is not ROUND\_FLOOR, so the library's \<^verbatim>\<open>negativezero\<close> is 0.
\<close>

definition normalize_ops :: "nat \<times> int \<Rightarrow> nat \<times> int \<Rightarrow> (nat \<times> int) \<times> (nat \<times> int)" where
  "normalize_ops op1 op2 =
     (let swap = (snd op1 < snd op2);
          tmp = (if swap then op2 else op1);
          other = (if swap then op1 else op2);
          tmp_len = int (ndigits (fst tmp));
          other_len = int (ndigits (fst other));
          e = snd tmp + min (- 1) (tmp_len - prec - 2);
          other' = (if other_len + snd other - 1 < e then (1, e) else other);
          tmp' = (fst tmp * 10 ^ nat (snd tmp - snd other'), snd other')
      in if swap then (other', tmp') else (tmp', other'))"

definition dec_add :: "decimal \<Rightarrow> decimal \<Rightarrow> error + decimal" where
  "dec_add x y =
     (let e = min (dexp x) (dexp y) in
      if dint x = 0 \<and> dint y = 0 then dec_fix (Decimal (dsign x \<and> dsign y) 0 e)
      else if dint x = 0 then
        dec_fix (rescale y (max e (dexp y - prec - 1)) ROUND_HALF_EVEN)
      else if dint y = 0 then
        dec_fix (rescale x (max e (dexp x - prec - 1)) ROUND_HALF_EVEN)
      else
        let (op1, op2) = normalize_ops (dint x, dexp x) (dint y, dexp y) in
        if dsign x \<noteq> dsign y then
          (if fst op1 = fst op2 then dec_fix (Decimal False 0 e)
           else if fst op1 < fst op2
             then dec_fix (Decimal (dsign y) (fst op2 - fst op1) (snd op2))
             else dec_fix (Decimal (dsign x) (fst op1 - fst op2) (snd op1)))
        else dec_fix (Decimal (dsign x) (fst op1 + fst op2) (snd op1)))"

definition copy_negate :: "decimal \<Rightarrow> decimal" where
  "copy_negate x = Decimal (\<not> dsign x) (dint x) (dexp x)"

definition dec_sub :: "decimal \<Rightarrow> decimal \<Rightarrow> error + decimal" where
  "dec_sub x y = dec_add x (copy_negate y)"

section \<open>The calculator\<close>

text \<open>
  \<^verbatim>\<open>d(x)\<close> returns a Decimal unchanged; the fields of \<open>Inputs\<close> are Decimals. For the
  integer \<^verbatim>\<open>years\<close> it is \<^verbatim>\<open>Decimal(str(years))\<close>.
\<close>

definition d :: "decimal \<Rightarrow> decimal" where
  "d x = x"

definition d_int :: "int \<Rightarrow> decimal" where
  "d_int n = Decimal (n < 0) (nat \<bar>n\<bar>) 0"

definition EURO :: decimal where
  "EURO = Decimal False 1 (- 2)"

definition quant2 :: "decimal \<Rightarrow> error + decimal" where
  "quant2 x = quantize (d x) (dexp EURO) ROUND_HALF_UP"

record Inputs =
  grundsteuerwert :: decimal
  messzahl_permille :: decimal
  hebesatz_prozent :: decimal
  years :: int
  custom_verkehrswert :: "decimal option"

record Results =
  steuer_status_quo :: decimal
  schwelle_40_prozent :: decimal
  steuer_beim_schwellenwert :: decimal
  ersparnis_pro_jahr_schwelle :: decimal
  ersparnis_gesamt_schwelle :: decimal
  steuer_beim_custom :: "decimal option"
  ersparnis_pro_jahr_custom :: "decimal option"
  ersparnis_gesamt_custom :: "decimal option"

definition berechne :: "Inputs \<Rightarrow> error + Results" where
  "berechne inputs =
     (let gsw = d (grundsteuerwert inputs) in
      bindE (dec_div (d (messzahl_permille inputs)) (Decimal False 1000 0)) (\<lambda>mess.
      bindE (dec_div (d (hebesatz_prozent inputs)) (Decimal False 100 0)) (\<lambda>heb.
      let yrs = years inputs in
      bindE (bindE (bindE (dec_mul gsw mess) (\<lambda>t. dec_mul t heb)) quant2) (\<lambda>steuer_now.
      bindE (bindE (dec_div gsw (Decimal False 14 (- 1))) quant2) (\<lambda>vmax.
      bindE (bindE (bindE (dec_mul vmax mess) (\<lambda>t. dec_mul t heb)) quant2) (\<lambda>steuer_vmax.
      bindE (bindE (dec_sub steuer_now steuer_vmax) quant2) (\<lambda>ersparnis_vmax_jahr.
      bindE (bindE (dec_mul ersparnis_vmax_jahr (d_int yrs)) quant2) (\<lambda>ersparnis_vmax_gesamt.
      let res = \<lparr>steuer_status_quo = steuer_now,
                 schwelle_40_prozent = vmax,
                 steuer_beim_schwellenwert = steuer_vmax,
                 ersparnis_pro_jahr_schwelle = ersparnis_vmax_jahr,
                 ersparnis_gesamt_schwelle = ersparnis_vmax_gesamt,
                 steuer_beim_custom = None,
                 ersparnis_pro_jahr_custom = None,
                 ersparnis_gesamt_custom = None\<rparr>
      in case custom_verkehrswert inputs of
           None \<Rightarrow> Inr res
         | Some c \<Rightarrow>
             let cv = d c in
             bindE (bindE (bindE (dec_mul cv mess) (\<lambda>t. dec_mul t heb)) quant2) (\<lambda>steuer_custom.
             bindE (bindE (dec_sub steuer_now steuer_custom) quant2) (\<lambda>ersparnis_custom_jahr.
             bindE (bindE (dec_mul ersparnis_custom_jahr (d_int yrs)) quant2) (\<lambda>ersparnis_custom_gesamt.
             Inr (res\<lparr>steuer_beim_custom := Some steuer_custom,
                      ersparnis_pro_jahr_custom := Some ersparnis_custom_jahr,
                      ersparnis_gesamt_custom := Some ersparnis_custom_gesamt\<rparr>))))))))))))"

section \<open>Currency formatting\<close>

text \<open>
  \<^verbatim>\<open>eur\<close> is the same function in grundsteuer\_rechner.py and in streamlit\_app.py. A Python
  string is a list of code points; here it is a list of bytes, and the euro sign (U+20AC,
  one code point in Python) is its three UTF-8 bytes.
\<close>

definition euro_sign :: string where
  "euro_sign = [CHR 0xE2, CHR 0x82, CHR 0xAC]"

definition digit_char :: "nat \<Rightarrow> char" where
  "digit_char n = ''0123456789'' ! n"

text \<open>The digit string of the coefficient (\<^verbatim>\<open>self._int\<close>).\<close>

fun str_nat :: "nat \<Rightarrow> string" where
  "str_nat n = (if n < 10 then [digit_char n] else str_nat (n div 10) @ [digit_char (n mod 10)])"

declare str_nat.simps [simp del]

text \<open>
  \<^verbatim>\<open>f"{xq:.2f}"\<close>, that is \<^verbatim>\<open>Decimal.__format__\<close> with type \<^verbatim>\<open>f\<close> and precision 2:
  rescale to exponent -2 with the context rounding, place the decimal point, put the sign
  in front. (The library's special case for a zero with a positive exponent cannot occur
  after the rescaling.)
\<close>

definition format_2f :: "decimal \<Rightarrow> string" where
  "format_2f x0 =
     (let x = rescale x0 (- 2) ROUND_HALF_EVEN;
          digs = str_nat (dint x);
          leftdigits = dexp x + int (length digs);
          dotplace = leftdigits;
          (intpart, fracpart) =
            (if dotplace < 0
             then (''0'', replicate (nat (- dotplace)) (CHR ''0'') @ digs)
             else if int (length digs) < dotplace
             then (digs @ replicate (nat (dotplace - int (length digs))) (CHR ''0''), [])
             else ((if take (nat dotplace) digs = [] then ''0'' else take (nat dotplace) digs),
                   drop (nat dotplace) digs));
          sgn = (if dsign x then ''-'' else [])
      in sgn @ intpart @ (if fracpart = [] then [] else ''.'' @ fracpart))"

text \<open>\<^verbatim>\<open>s.split(c)\<close> for a one-character separator.\<close>

fun split_on :: "char \<Rightarrow> string \<Rightarrow> string list" where
  "split_on c [] = [[]]"
| "split_on c (x # xs) =
     (if x = c then [] # split_on c xs
      else (case split_on c xs of [] \<Rightarrow> [[x]] | w # ws \<Rightarrow> (x # w) # ws))"

text \<open>\<^verbatim>\<open>[rev[i:i+3] for i in range(0, len(rev), 3)]\<close>\<close>

fun chunks3 :: "'a list \<Rightarrow> 'a list list" where
  "chunks3 [] = []"
| "chunks3 (x # xs) = take 3 (x # xs) # chunks3 (drop 3 (x # xs))"

text \<open>\<^verbatim>\<open>sep.join(parts)\<close>\<close>

fun join :: "string \<Rightarrow> string list \<Rightarrow> string" where
  "join sep [] = []"
| "join sep [x] = x"
| "join sep (x # y # ys) = x @ sep @ join sep (y # ys)"

text \<open>
  \<^verbatim>\<open>whole, frac = s.split(".")\<close> raises ValueError unless the split gives exactly two parts.
\<close>

definition eur :: "decimal \<Rightarrow> error + string" where
  "eur x =
     bindE (quant2 x) (\<lambda>xq.
       let s = format_2f xq in
       case split_on (CHR ''.'') s of
         [whole, fracp] \<Rightarrow>
           let rev_whole = rev whole;
               chunks = chunks3 rev_whole;
               whole_fmt = rev (join ''.'' chunks)
           in Inr (whole_fmt @ '','' @ fracp @ '' '' @ euro_sign)
       | _ \<Rightarrow> Inl ValueError)"

section \<open>Notions of the specification\<close>

text \<open>The number a Decimal stands for.\<close>

definition dec_val :: "decimal \<Rightarrow> rat" where
  "dec_val x =
     (if dsign x then - 1 else 1) * of_nat (dint x) *
     (if 0 \<le> dexp x then 10 ^ nat (dexp x) else 1 / 10 ^ nat (- dexp x))"

text \<open>An amount with exponent -2, in cents.\<close>

definition cents :: "decimal \<Rightarrow> int" where
  "cents x = (if dsign x then - int (dint x) else int (dint x))"

text \<open>
  The specification's \<open>round2\<close>: to 2 decimal places, a midpoint going away from zero.
\<close>

definition round2 :: "rat \<Rightarrow> rat" where
  "round2 q = sgn q * of_int \<lfloor>\<bar>q\<bar> * 100 + 1 / 2\<rfloor> / 100"

text \<open>
  The specification's three derived values of a scenario at value \<open>v\<close>: the tax at \<open>v\<close>,
  the saving per year against the current tax, and the saving over the remaining years.
\<close>

definition szenario ::
  "decimal \<Rightarrow> decimal \<Rightarrow> decimal \<Rightarrow> decimal \<Rightarrow> int \<Rightarrow> error + decimal \<times> decimal \<times> decimal" where
  "szenario v mess heb steuer_now yrs =
     bindE (bindE (bindE (dec_mul v mess) (\<lambda>t. dec_mul t heb)) quant2) (\<lambda>steuer.
     bindE (bindE (dec_sub steuer_now steuer) quant2) (\<lambda>jahr.
     bindE (bindE (dec_mul jahr (d_int yrs)) quant2) (\<lambda>gesamt.
     Inr (steuer, jahr, gesamt))))"

text \<open>
  Reading a formatted amount back, in the specification's words: take the numeric portion
  (up to the blank before the currency sign), strip the thousands separators, turn the
  decimal comma into a point, and parse the result as \<^verbatim>\<open>Decimal(...)\<close> does for a
  plain numeral \<^verbatim>\<open>[-]digits[.digits]\<close>.
\<close>

definition is_digit :: "char \<Rightarrow> bool" where
  "is_digit c = (c \<in> set ''0123456789'')"

definition digits_nat :: "string \<Rightarrow> nat" where
  "digits_nat ds = foldl (\<lambda>a c. 10 * a + (of_char c - 48)) 0 ds"

definition parse_decimal :: "string \<Rightarrow> decimal option" where
  "parse_decimal s =
     (let neg = (s \<noteq> [] \<and> hd s = CHR ''-'');
          body = (if neg then tl s else s);
          ip = takeWhile (\<lambda>c. c \<noteq> CHR ''.'') body;
          rest = dropWhile (\<lambda>c. c \<noteq> CHR ''.'') body;
          fp = (if rest = [] then [] else tl rest)
      in if ip @ fp \<noteq> [] \<and> list_all is_digit (ip @ fp)
         then Some (Decimal neg (digits_nat (ip @ fp)) (- int (length fp)))
         else None)"

definition parse_eur :: "string \<Rightarrow> decimal option" where
  "parse_eur s =
     (let numeric = takeWhile (\<lambda>c. c \<noteq> CHR '' '') s;
          stripped = filter (\<lambda>c. c \<noteq> CHR ''.'') numeric;
          pointed = map (\<lambda>c. if c = CHR '','' then CHR ''.'' else c) stripped
      in parse_decimal pointed)"

section \<open>The scenarios of the specification\<close>

definition scenario_A :: Inputs where
  "scenario_A =
     \<lparr>grundsteuerwert = Decimal False 1031600 0,
      messzahl_permille = Decimal False 31 (- 2),
      hebesatz_prozent = Decimal False 470 0,
      years = 4,
      custom_verkehrswert = None\<rparr>"

definition result_A :: Results where
  "result_A =
     \<lparr>steuer_status_quo = Decimal False 150304 (- 2),
      schwelle_40_prozent = Decimal False 73685714 (- 2),
      steuer_beim_schwellenwert = Decimal False 107360 (- 2),
      ersparnis_pro_jahr_schwelle = Decimal False 42944 (- 2),
      ersparnis_gesamt_schwelle = Decimal False 171776 (- 2),
      steuer_beim_custom = None,
      ersparnis_pro_jahr_custom = None,
      ersparnis_gesamt_custom = None\<rparr>"

definition scenario_B :: Inputs where
  "scenario_B = scenario_A\<lparr>custom_verkehrswert := Some (Decimal False 600000 0)\<rparr>"

definition result_B :: Results where
  "result_B =
     result_A\<lparr>steuer_beim_custom := Some (Decimal False 87420 (- 2)),
              ersparnis_pro_jahr_custom := Some (Decimal False 62884 (- 2)),
              ersparnis_gesamt_custom := Some (Decimal False 251536 (- 2))\<rparr>"

text \<open>Scenario A with a custom value supplied as zero.\<close>

definition scenario_custom_zero :: Inputs where
  "scenario_custom_zero = scenario_A\<lparr>custom_verkehrswert := Some (Decimal False 0 0)\<rparr>"

definition result_custom_zero :: Results where
  "result_custom_zero =
     result_A\<lparr>steuer_beim_custom := Some (Decimal False 0 (- 2)),
              ersparnis_pro_jahr_custom := Some (Decimal False 150304 (- 2)),
              ersparnis_gesamt_custom := Some (Decimal False 601216 (- 2))\<rparr>"

text \<open>Scenario A with an assessed value of 0.007, below one cent.\<close>

definition scenario_subcent :: Inputs where
  "scenario_subcent = scenario_A\<lparr>grundsteuerwert := Decimal False 7 (- 3)\<rparr>"

definition result_subcent :: Results where
  "result_subcent =
     \<lparr>steuer_status_quo = Decimal False 0 (- 2),
      schwelle_40_prozent = Decimal False 1 (- 2),
      steuer_beim_schwellenwert = Decimal False 0 (- 2),
      ersparnis_pro_jahr_schwelle = Decimal False 0 (- 2),
      ersparnis_gesamt_schwelle = Decimal False 0 (- 2),
      steuer_beim_custom = None,
      ersparnis_pro_jahr_custom = None,
      ersparnis_gesamt_custom = None\<rparr>"

text \<open>Scenario A with an assessed value of 0.\<close>

definition scenario_zero :: Inputs where
  "scenario_zero = scenario_A\<lparr>grundsteuerwert := Decimal False 0 0\<rparr>"

definition result_zero :: Results where
  "result_zero =
     \<lparr>steuer_status_quo = Decimal False 0 (- 2),
      schwelle_40_prozent = Decimal False 0 (- 2),
      steuer_beim_schwellenwert = Decimal False 0 (- 2),
      ersparnis_pro_jahr_schwelle = Decimal False 0 (- 2),
      ersparnis_gesamt_schwelle = Decimal False 0 (- 2),
      steuer_beim_custom = None,
      ersparnis_pro_jahr_custom = None,
      ersparnis_gesamt_custom = None\<rparr>"

text \<open>Scenario A with an assessed value of \<^verbatim>\<open>Decimal("1E+30")\<close>.\<close>

definition scenario_huge :: Inputs where
  "scenario_huge = scenario_A\<lparr>grundsteuerwert := Decimal False 1 30\<rparr>"

section \<open>Evaluation on numerals\<close>

lemma bindE_Inr [simp]: "bindE (Inr v) f = f v"
  by (simp add: bindE_def)

lemma bindE_Inl [simp]: "bindE (Inl e) f = Inl e"
  by (simp add: bindE_def)

lemma bindE_eq_Inr: "bindE m f = Inr v \<longleftrightarrow> (\<exists>u. m = Inr u \<and> f u = Inr v)"
  by (cases m) simp_all

lemma ndigits_0: "ndigits 0 = 1"
  by (simp add: ndigits.simps)

lemma ndigits_1: "ndigits 1 = 1"
  by (simp add: ndigits.simps)

lemma ndigits_Suc0: "ndigits (Suc 0) = 1"
  by (simp add: ndigits.simps)

lemma ndigits_numeral:
  "ndigits (numeral w) = (if numeral w < (10::nat) then 1 else Suc (ndigits (numeral w div 10)))"
  by (rule ndigits.simps)

lemma strip_zeros_numeral:
  "strip_zeros (numeral w) e i =
     (if e < i \<and> (numeral w :: nat) mod 10 = 0
      then strip_zeros (numeral w div 10) (e + 1) i else (numeral w, e))"
  by (rule strip_zeros.simps)

lemma strip_zeros_1: "strip_zeros 1 e i = (1, e)"
  using strip_zeros.simps[of 1 e i] by simp

lemma strip_zeros_Suc0: "strip_zeros (Suc 0) e i = (Suc 0, e)"
  using strip_zeros.simps[of 1 e i] by simp

lemmas dec_eval =
  Decimal_def d_def dec_div_def dec_mul_def dec_fix_def quant2_def quantize_def EURO_def
  prec_def Emax_def Emin_def Etiny_def Etop_def ndigits_0 ndigits_1 ndigits_Suc0
  ndigits_numeral Let_def strip_zeros_numeral strip_zeros_1 strip_zeros_Suc0 adjusted_def
  rescale_def round_up_def dec_sub_def dec_add_def copy_negate_def normalize_ops_def
  d_int_def

subsection \<open>Scenario A, step by step\<close>

lemma mess_A: "dec_div (Decimal False 31 (- 2)) (Decimal False 1000 0) = Inr (Decimal False 31 (- 5))"
  by (simp add: dec_eval)

lemma heb_A: "dec_div (Decimal False 470 0) (Decimal False 100 0) = Inr (Decimal False 47 (- 1))"
  by (simp add: dec_eval)

lemma steuer_now_A1:
  "dec_mul (Decimal False 1031600 0) (Decimal False 31 (- 5)) = Inr (Decimal False 31979600 (- 5))"
  by (simp add: dec_eval)

lemma steuer_now_A2:
  "dec_mul (Decimal False 31979600 (- 5)) (Decimal False 47 (- 1)) = Inr (Decimal False 1503041200 (- 6))"
  by (simp add: dec_eval)

lemma steuer_now_A3: "quant2 (Decimal False 1503041200 (- 6)) = Inr (Decimal False 150304 (- 2))"
  by (simp add: dec_eval)

lemma vmax_A1:
  "dec_div (Decimal False 1031600 0) (Decimal False 14 (- 1)) =
     Inr (Decimal False 7368571428571428571428571429 (- 22))"
  by (simp add: dec_eval)

lemma vmax_A2:
  "quant2 (Decimal False 7368571428571428571428571429 (- 22)) = Inr (Decimal False 73685714 (- 2))"
  by (simp add: dec_eval)

lemma steuer_vmax_A1:
  "dec_mul (Decimal False 73685714 (- 2)) (Decimal False 31 (- 5)) = Inr (Decimal False 2284257134 (- 7))"
  by (simp add: dec_eval)

lemma steuer_vmax_A2:
  "dec_mul (Decimal False 2284257134 (- 7)) (Decimal False 47 (- 1)) = Inr (Decimal False 107360085298 (- 8))"
  by (simp add: dec_eval)

lemma steuer_vmax_A3: "quant2 (Decimal False 107360085298 (- 8)) = Inr (Decimal False 107360 (- 2))"
  by (simp add: dec_eval)

lemma jahr_A1:
  "dec_sub (Decimal False 150304 (- 2)) (Decimal False 107360 (- 2)) = Inr (Decimal False 42944 (- 2))"
  by (simp add: dec_eval)

lemma jahr_A2: "quant2 (Decimal False 42944 (- 2)) = Inr (Decimal False 42944 (- 2))"
  by (simp add: dec_eval)

lemma gesamt_A1: "dec_mul (Decimal False 42944 (- 2)) (d_int 4) = Inr (Decimal False 171776 (- 2))"
  by (simp add: dec_eval)

lemma gesamt_A2: "quant2 (Decimal False 171776 (- 2)) = Inr (Decimal False 171776 (- 2))"
  by (simp add: dec_eval)

lemmas steps_A =
  mess_A heb_A steuer_now_A1 steuer_now_A2 steuer_now_A3 vmax_A1 vmax_A2 steuer_vmax_A1
  steuer_vmax_A2 steuer_vmax_A3 jahr_A1 jahr_A2 gesamt_A1 gesamt_A2

lemma berechne_scenario_A: "berechne scenario_A = Inr result_A"
  by (simp add: berechne_def scenario_A_def result_A_def d_def steps_A)

subsection \<open>The other scenarios\<close>


lemma custom_B1: "dec_mul (Decimal False 600000 0) (Decimal False 31 (- 5)) = Inr (Decimal False 18600000 (- 5))"
  by (simp add: dec_eval)
lemma custom_B2: "dec_mul (Decimal False 18600000 (- 5)) (Decimal False 47 (- 1)) = Inr (Decimal False 874200000 (- 6))"
  by (simp add: dec_eval)
lemma custom_B3: "quant2 (Decimal False 874200000 (- 6)) = Inr (Decimal False 87420 (- 2))"
  by (simp add: dec_eval)
lemma custom_B4: "dec_sub (Decimal False 150304 (- 2)) (Decimal False 87420 (- 2)) = Inr (Decimal False 62884 (- 2))"
  by (simp add: dec_eval)
lemma custom_B5: "quant2 (Decimal False 62884 (- 2)) = Inr (Decimal False 62884 (- 2))"
  by (simp add: dec_eval)
lemma custom_B6: "dec_mul (Decimal False 62884 (- 2)) (d_int 4) = Inr (Decimal False 251536 (- 2))"
  by (simp add: dec_eval)
lemma custom_B7: "quant2 (Decimal False 251536 (- 2)) = Inr (Decimal False 251536 (- 2))"
  by (simp add: dec_eval)

lemma berechne_scenario_B: "berechne scenario_B = Inr result_B"
  by (simp add: berechne_def scenario_B_def scenario_A_def result_B_def result_A_def d_def steps_A
      custom_B1 custom_B2 custom_B3 custom_B4 custom_B5 custom_B6 custom_B7)

lemma zero_1: "dec_mul (Decimal False 0 0) (Decimal False 31 (- 5)) = Inr (Decimal False 0 (- 5))"
  by (simp add: dec_eval)
lemma zero_2: "dec_mul (Decimal False 0 (- 5)) (Decimal False 47 (- 1)) = Inr (Decimal False 0 (- 6))"
  by (simp add: dec_eval)
lemma zero_3: "quant2 (Decimal False 0 (- 6)) = Inr (Decimal False 0 (- 2))"
  by (simp add: dec_eval)
lemma zero_4: "dec_sub (Decimal False 150304 (- 2)) (Decimal False 0 (- 2)) = Inr (Decimal False 150304 (- 2))"
  by (simp add: dec_eval)
lemma zero_5: "quant2 (Decimal False 150304 (- 2)) = Inr (Decimal False 150304 (- 2))"
  by (simp add: dec_eval)
lemma zero_6: "dec_mul (Decimal False 150304 (- 2)) (d_int 4) = Inr (Decimal False 601216 (- 2))"
  by (simp add: dec_eval)
lemma zero_7: "quant2 (Decimal False 601216 (- 2)) = Inr (Decimal False 601216 (- 2))"
  by (simp add: dec_eval)

lemma berechne_scenario_custom_zero: "berechne scenario_custom_zero = Inr result_custom_zero"
  by (simp add: berechne_def scenario_custom_zero_def scenario_A_def result_custom_zero_def result_A_def d_def steps_A
      zero_1 zero_2 zero_3 zero_4 zero_5 zero_6 zero_7)

lemma sub_1: "dec_mul (Decimal False 7 (- 3)) (Decimal False 31 (- 5)) = Inr (Decimal False 217 (- 8))"
  by (simp add: dec_eval)
lemma sub_2: "dec_mul (Decimal False 217 (- 8)) (Decimal False 47 (- 1)) = Inr (Decimal False 10199 (- 9))"
  by (simp add: dec_eval)
lemma sub_3: "quant2 (Decimal False 10199 (- 9)) = Inr (Decimal False 0 (- 2))"
  by (simp add: dec_eval)
lemma sub_4: "dec_div (Decimal False 7 (- 3)) (Decimal False 14 (- 1)) = Inr (Decimal False 5 (- 3))"
  by (simp add: dec_eval)
lemma sub_5: "quant2 (Decimal False 5 (- 3)) = Inr (Decimal False 1 (- 2))"
  by (simp add: dec_eval)
lemma sub_6: "dec_mul (Decimal False 1 (- 2)) (Decimal False 31 (- 5)) = Inr (Decimal False 31 (- 7))"
  by (simp add: dec_eval)
lemma sub_7: "dec_mul (Decimal False 31 (- 7)) (Decimal False 47 (- 1)) = Inr (Decimal False 1457 (- 8))"
  by (simp add: dec_eval)
lemma sub_8: "quant2 (Decimal False 1457 (- 8)) = Inr (Decimal False 0 (- 2))"
  by (simp add: dec_eval)
lemma sub_9: "dec_sub (Decimal False 0 (- 2)) (Decimal False 0 (- 2)) = Inr (Decimal False 0 (- 2))"
  by (simp add: dec_eval)
lemma sub_10: "quant2 (Decimal False 0 (- 2)) = Inr (Decimal False 0 (- 2))"
  by (simp add: dec_eval)
lemma sub_11: "dec_mul (Decimal False 0 (- 2)) (d_int 4) = Inr (Decimal False 0 (- 2))"
  by (simp add: dec_eval)

lemmas steps_subcent = sub_1 sub_2 sub_3 sub_4 sub_5 sub_6 sub_7 sub_8 sub_9 sub_10 sub_11

lemma berechne_scenario_subcent: "berechne scenario_subcent = Inr result_subcent"
  by (simp add: berechne_def scenario_subcent_def scenario_A_def result_subcent_def d_def mess_A heb_A steps_subcent[unfolded One_nat_def])

lemma zero_8: "dec_div (Decimal False 0 0) (Decimal False 14 (- 1)) = Inr (Decimal False 0 1)"
  by (simp add: dec_eval)
lemma zero_9: "quant2 (Decimal False 0 1) = Inr (Decimal False 0 (- 2))"
  by (simp add: dec_eval)
lemma zero_10: "dec_mul (Decimal False 0 (- 2)) (Decimal False 31 (- 5)) = Inr (Decimal False 0 (- 7))"
  by (simp add: dec_eval)
lemma zero_11: "dec_mul (Decimal False 0 (- 7)) (Decimal False 47 (- 1)) = Inr (Decimal False 0 (- 8))"
  by (simp add: dec_eval)
lemma zero_12: "quant2 (Decimal False 0 (- 8)) = Inr (Decimal False 0 (- 2))"
  by (simp add: dec_eval)

lemma berechne_scenario_zero: "berechne scenario_zero = Inr result_zero"
  by (simp add: berechne_def scenario_zero_def scenario_A_def result_zero_def d_def mess_A heb_A
      zero_1 zero_2 zero_3 zero_8 zero_9 zero_10 zero_11 zero_12 sub_9 sub_10 sub_11)

lemma huge_1: "dec_mul (Decimal False 1 30) (Decimal False 31 (- 5)) = Inr (Decimal False 31 25)"
  by (simp add: dec_eval)
lemma huge_2: "dec_mul (Decimal False 31 25) (Decimal False 47 (- 1)) = Inr (Decimal False 1457 24)"
  by (simp add: dec_eval)
lemma huge_3: "quant2 (Decimal False 1457 24) = Inl InvalidOperation"
  by (simp add: dec_eval)

lemma berechne_scenario_huge: "berechne scenario_huge = Inl InvalidOperation"
  by (simp add: berechne_def scenario_huge_def scenario_A_def d_def mess_A heb_A huge_1[unfolded One_nat_def] huge_2 huge_3)

section \<open>End-to-end scenario A\<close>

text \<open>
  C1 (as stated, refuted). For scenario A the calculator returns a current tax of 1503.04:
  the specification's figure 1503.08 is not what the code computes.
\<close>

theorem C1_tax_current_counterexample:
  "berechne scenario_A = Inr result_A \<and> dec_val (steuer_status_quo result_A) \<noteq> 150308 / 100"
  by (simp add: berechne_scenario_A) (simp add: result_A_def dec_val_def Decimal_def)

text \<open>
  C1 (amended). For assessed value 1031600, rate 0.31 per mille, municipal rate 470 percent,
  4 remaining years and no custom value, the calculator returns the current tax 1503.04,
  the threshold value 736857.14, the tax at the threshold round2(736857.14 * 0.00031 * 4.70)
  = 1073.60, and total savings 4 * (tax\_current - tax\_at\_threshold) = 1717.76.
\<close>

theorem C1_scenario_A:
  "berechne scenario_A = Inr result_A \<and>
   dec_val (steuer_status_quo result_A) = 150304 / 100 \<and>
   dec_val (schwelle_40_prozent result_A) = 73685714 / 100 \<and>
   dec_val (steuer_beim_schwellenwert result_A) = round2 (73685714 / 100 * (31 / 100000) * (47 / 10)) \<and>
   dec_val (ersparnis_gesamt_schwelle result_A) =
     4 * (dec_val (steuer_status_quo result_A) - dec_val (steuer_beim_schwellenwert result_A))"
  by (simp add: berechne_scenario_A) (simp add: result_A_def dec_val_def Decimal_def round2_def floor_eq_iff)

section \<open>Digits and magnitudes\<close>

lemma ndigits_le: "ndigits n \<le> k \<longleftrightarrow> (k \<noteq> 0 \<and> n < 10 ^ k)"
proof (induction n arbitrary: k rule: ndigits.induct)
  case (1 n)
  show ?case
  proof (cases "n < 10")
    case True
    have "n < 10 ^ k" if "k \<noteq> 0"
    proof -
      from that have "(10::nat) ^ 1 \<le> 10 ^ k"
        by (intro power_increasing) auto
      with True show ?thesis by simp
    qed
    with True show ?thesis
      by (auto simp: ndigits.simps[of n])
  next
    case False
    show ?thesis
    proof (cases k)
      case 0
      with False show ?thesis
        by (simp add: ndigits.simps[of n])
    next
      case (Suc j)
      have "n div 10 < 10 ^ j \<longleftrightarrow> n < 10 ^ Suc j"
        by (simp add: div_less_iff_less_mult mult.commute)
      moreover have "j \<noteq> 0 \<or> \<not> n div 10 < 10 ^ j"
        using False by (cases j) auto
      ultimately show ?thesis
        using False Suc 1[OF False, of j] by (auto simp: ndigits.simps[of n])
    qed
  qed
qed

lemma ndigits_pos: "0 < ndigits n"
  by (simp add: ndigits.simps[of n])

lemma ndigits_upper: "n < 10 ^ ndigits n"
  using ndigits_le[of n "ndigits n"] by simp

lemma ndigits_lower: "n \<noteq> 0 \<Longrightarrow> 10 ^ (ndigits n - 1) \<le> n"
proof -
  assume n: "n \<noteq> 0"
  show ?thesis
  proof (cases "ndigits n - 1 = 0")
    case True
    with n show ?thesis by simp
  next
    case False
    have "\<not> ndigits n \<le> ndigits n - 1"
      using ndigits_pos[of n] by simp
    with False show ?thesis
      by (simp add: ndigits_le)
  qed
qed

lemma ndigits_le_prec: "int (ndigits n) \<le> prec \<longleftrightarrow> n < 10 ^ 28"
  using ndigits_le[of n 28] by (simp add: prec_def)

lemma ndigits_gt_prec: "prec < int (ndigits n) \<longleftrightarrow> 10 ^ 28 \<le> n"
  using ndigits_le_prec[of n] by linarith

lemma div_pow10_less: "c < 10 ^ n \<Longrightarrow> k \<le> n \<Longrightarrow> c div 10 ^ k < (10::nat) ^ (n - k)"
proof -
  assume c: "c < 10 ^ n" and k: "k \<le> n"
  have "(10::nat) ^ n = 10 ^ (n - k) * 10 ^ k"
    using k by (simp flip: power_add)
  with c show ?thesis
    by (simp add: less_mult_imp_div_less)
qed

lemma div_pow10_ge: "10 ^ n \<le> c \<Longrightarrow> k \<le> n \<Longrightarrow> (10::nat) ^ (n - k) \<le> c div 10 ^ k"
proof -
  assume c: "10 ^ n \<le> c" and k: "k \<le> n"
  have "(10::nat) ^ n = 10 ^ (n - k) * 10 ^ k"
    using k by (simp flip: power_add)
  with c show ?thesis
    by (simp add: less_eq_div_iff_mult_less_eq)
qed

section \<open>What the context does to a result\<close>

lemma dec_fix_zero:
  "dint x = 0 \<Longrightarrow> dec_fix x = Inr (Decimal (dsign x) 0 (min (max (dexp x) Etiny) Emax))"
  by (simp add: dec_fix_def)

lemma dec_fix_id:
  assumes "dint x \<noteq> 0" "dint x < 10 ^ 28" "Etiny \<le> dexp x" "dexp x \<le> Etop"
  shows "dec_fix x = Inr x"
proof -
  have nd: "int (ndigits (dint x)) \<le> 28"
    using assms(2) ndigits_le_prec[of "dint x"] by (simp add: prec_def)
  have "0 < int (ndigits (dint x))"
    using ndigits_pos[of "dint x"] by simp
  with nd assms show ?thesis
    by (simp add: dec_fix_def Let_def prec_def)
qed

lemma dec_fix_cents:
  assumes "dexp x = - 2" "dint x < 10 ^ 28"
  shows "dec_fix x = Inr x"
proof (cases "dint x = 0")
  case True
  with assms show ?thesis
    by (simp add: dec_fix_zero Decimal_def Etiny_def Emin_def Emax_def prec_def)
next
  case False
  with assms show ?thesis
    by (intro dec_fix_id) (simp_all add: Etiny_def Emin_def Etop_def Emax_def prec_def)
qed

lemma dec_fix_sign: "dec_fix x = Inr z \<Longrightarrow> dsign z = dsign x"
  by (auto simp: dec_fix_def Let_def Decimal_def split: if_splits)

lemma dec_fix_round:
  assumes big: "10 ^ 28 \<le> dint x"
    and normal: "Etiny \<le> int (ndigits (dint x)) + dexp x - 28"
    and fx: "dec_fix x = Inr z"
  shows "10 ^ 27 \<le> dint z \<and> dint z < 10 ^ 28 \<and> dsign z = dsign x \<and>
         int (ndigits (dint x)) + dexp x - 28 \<le> dexp z \<and>
         dexp z \<le> int (ndigits (dint x)) + dexp x - 27"
proof -
  define c where "c = dint x"
  define nd where "nd = ndigits c"
  let ?k = "nat (int nd - 28)"
  let ?q = "c div 10 ^ ?k"
  have nd29: "29 \<le> nd"
  proof -
    have "\<not> ndigits c \<le> 28"
      using big by (simp add: ndigits_le c_def)
    then show ?thesis by (simp add: nd_def)
  qed
  have c0: "c \<noteq> 0"
    using big by (auto simp: c_def)
  have k: "?k = nd - 28"
    using nd29 by simp
  have q_lo: "10 ^ 27 \<le> ?q"
  proof -
    have "10 ^ (nd - 1) \<le> c"
      using ndigits_lower[OF c0] by (simp add: nd_def)
    from div_pow10_ge[OF this, of "nd - 28"] nd29 show ?thesis
      by (simp add: k)
  qed
  have q_hi: "?q < 10 ^ 28"
  proof -
    have "c < 10 ^ nd"
      using ndigits_upper[of c] by (simp add: nd_def)
    from div_pow10_less[OF this, of "nd - 28"] nd29 show ?thesis
      by (simp add: k)
  qed
  have carry: "(?q + 1) div 10 = 10 ^ 27" if "10 ^ 28 \<le> ?q + 1"
  proof -
    from that q_hi have "?q + 1 = 10 ^ 28" by simp
    then show ?thesis by simp
  qed
  from fx normal nd29 c0 show ?thesis
    unfolding dec_fix_def Let_def c_def[symmetric] nd_def[symmetric]
    apply (simp add: prec_def split: if_splits)
    using q_lo q_hi carry
    apply (auto simp: Decimal_def ndigits_gt_prec[unfolded prec_def, simplified])
    done
qed

section \<open>Rounding to cents\<close>

lemma rescale_exp [simp]: "dexp (rescale x e r) = e"
  by (simp add: rescale_def Decimal_def Let_def)

lemma rescale_sign [simp]: "dsign (rescale x e r) = dsign x"
  by (simp add: rescale_def Decimal_def Let_def)

lemma quant2_result:
  assumes "quant2 x = Inr y"
  shows "dexp y = - 2 \<and> dint y < 10 ^ 28 \<and> dsign y = dsign x"
proof (cases "dint x = 0")
  case True
  with assms show ?thesis
    by (simp add: quant2_def quantize_def d_def EURO_def Decimal_def dec_fix_def
        Etiny_def Emin_def Emax_def prec_def split: if_splits) auto
next
  case False
  define ans where "ans = rescale x (- 2) ROUND_HALF_UP"
  from assms False have small: "\<not> prec < int (ndigits (dint ans))" and fx: "dec_fix ans = Inr y"
    by (simp_all add: quant2_def quantize_def d_def EURO_def Decimal_def Let_def ans_def
        split: if_splits)
  from small have "dint ans < 10 ^ 28"
    by (simp add: ndigits_gt_prec)
  moreover have "dexp ans = - 2" "dsign ans = dsign x"
    by (simp_all add: ans_def)
  ultimately show ?thesis
    using fx dec_fix_cents[of ans] by simp
qed

lemma quant2_cents:
  assumes "dexp x = - 2" "dint x < 10 ^ 28"
  shows "quant2 x = Inr x"
proof (cases "dint x = 0")
  case True
  with assms show ?thesis
    by (simp add: quant2_def quantize_def d_def EURO_def Decimal_def dec_fix_def
        Etiny_def Emin_def Emax_def prec_def)
next
  case False
  have nd: "int (ndigits (dint x)) \<le> 28"
    using assms(2) ndigits_le_prec[of "dint x"] by (simp add: prec_def)
  have resc: "rescale x (- 2) ROUND_HALF_UP = x"
    using assms False by (simp add: rescale_def Decimal_def)
  show ?thesis
    using assms False nd dec_fix_cents[of x]
    by (simp add: quant2_def quantize_def d_def EURO_def Decimal_def Let_def resc adjusted_def
        Etiny_def Emin_def Emax_def prec_def)
qed

lemma quant2_too_big:
  assumes "dint x \<noteq> 0" "26 \<le> adjusted x"
  shows "quant2 x = Inl InvalidOperation"
  using assms
  by (simp add: quant2_def quantize_def d_def EURO_def Decimal_def Let_def prec_def
      Etiny_def Emin_def Emax_def)

text \<open>
  A result that has exponent -2 before the context rounds it, and that is then rounded to
  cents, is exact: were it to need more than 28 digits, the rounding to cents would raise.
\<close>

lemma fix_quant2_exact:
  assumes e: "dexp x = - 2" and r: "bindE (dec_fix x) quant2 = Inr w"
  shows "dint w = dint x \<and> dsign w = dsign x \<and> dexp w = - 2 \<and> dint x < 10 ^ 28"
proof (cases "dint x < 10 ^ 28")
  case True
  with e r show ?thesis
    by (simp add: dec_fix_cents quant2_cents)
next
  case False
  from r obtain z where z: "dec_fix x = Inr z" and q: "quant2 z = Inr w"
    by (auto simp: bindE_eq_Inr)
  have big: "10 ^ 28 \<le> dint x"
    using False by simp
  have nd: "29 \<le> ndigits (dint x)"
  proof -
    have "\<not> ndigits (dint x) \<le> 28"
      using big by (simp add: ndigits_le)
    then show ?thesis by simp
  qed
  have normal: "Etiny \<le> int (ndigits (dint x)) + dexp x - 28"
    using nd e by (simp add: Etiny_def Emin_def prec_def)
  from dec_fix_round[OF big normal z]
  have zz: "10 ^ 27 \<le> dint z" "- 1 \<le> dexp z"
    using nd e by simp_all
  have "28 \<le> ndigits (dint z)"
  proof -
    have "\<not> ndigits (dint z) \<le> 27"
      using zz(1) by (simp add: ndigits_le)
    then show ?thesis by simp
  qed
  with zz have "dint z \<noteq> 0" "26 \<le> adjusted z"
    by (auto simp: adjusted_def)
  from quant2_too_big[OF this] q show ?thesis
    by simp
qed

section \<open>The structure of a calculation\<close>

text \<open>
  A successful run of \<open>berechne\<close>, read off its definition: the two factors, the current
  tax, the threshold, and the scenario at the threshold; with a custom value, the same
  scenario at the custom value.
\<close>

lemma berechne_steps:
  assumes "berechne inp = Inr r"
  shows "\<exists>mess heb.
    dec_div (messzahl_permille inp) (Decimal False 1000 0) = Inr mess \<and>
    dec_div (hebesatz_prozent inp) (Decimal False 100 0) = Inr heb \<and>
    bindE (bindE (dec_mul (grundsteuerwert inp) mess) (\<lambda>t. dec_mul t heb)) quant2 =
      Inr (steuer_status_quo r) \<and>
    bindE (dec_div (grundsteuerwert inp) (Decimal False 14 (- 1))) quant2 =
      Inr (schwelle_40_prozent r) \<and>
    szenario (schwelle_40_prozent r) mess heb (steuer_status_quo r) (years inp) =
      Inr (steuer_beim_schwellenwert r, ersparnis_pro_jahr_schwelle r, ersparnis_gesamt_schwelle r) \<and>
    (case custom_verkehrswert inp of
       None \<Rightarrow>
         steuer_beim_custom r = None \<and> ersparnis_pro_jahr_custom r = None \<and>
         ersparnis_gesamt_custom r = None
     | Some cv \<Rightarrow>
         \<exists>t j g. szenario cv mess heb (steuer_status_quo r) (years inp) = Inr (t, j, g) \<and>
           steuer_beim_custom r = Some t \<and> ersparnis_pro_jahr_custom r = Some j \<and>
           ersparnis_gesamt_custom r = Some g)"
  using assms
  unfolding berechne_def szenario_def d_def Let_def bindE_eq_Inr
  by (cases "custom_verkehrswert inp") (auto simp: bindE_eq_Inr)

lemma szenario_steps:
  assumes "szenario v mess heb now yrs = Inr (t, j, g)"
  shows "bindE (bindE (dec_mul v mess) (\<lambda>t. dec_mul t heb)) quant2 = Inr t \<and>
         bindE (dec_sub now t) quant2 = Inr j \<and>
         bindE (dec_mul j (d_int yrs)) quant2 = Inr g"
  using assms unfolding szenario_def by (auto simp: bindE_eq_Inr)

end
